theory Spec2Isabelle
  imports Complex_Main "HOL-Library.Multiset"
begin

section \<open>Values, errors and the storage layer\<close>

text \<open>
  The services are asynchronous JavaScript/TypeScript functions over a hosted database.
  Each function is embedded as a pure function from its arguments, the answers of the
  storage layer and the database contents to its result and the new database contents.
  A JavaScript number is an exact rational here: the deltas the services compute are
  small multiples of 0.25, which binary floating point adds without rounding, and a
  quotient is the exact one where the program has the nearest double.

  A storage call resolves to a pair \<open>{data, error}\<close>. Whether the storage layer
  executes a call or answers it with an error is not decided by the program, so every
  call takes a fault: \<open>None\<close> when the call is executed, \<open>Some code\<close> when it is
  answered with the error of that code (no data, no effect on the tables).
\<close>

type_synonym fault = "string option"

datatype error =
    EventIdRequired          \<comment> \<open>\<open>new Error('eventId required')\<close>\<close>
  | EventIdIsRequired        \<comment> \<open>\<open>new Error('eventId is required')\<close>\<close>
  | RatingRequired           \<comment> \<open>\<open>new Error('rating required')\<close>\<close>
  | UserNotAuthenticated     \<comment> \<open>\<open>new Error('user not authenticated')\<close>\<close>
  | UserIdRequired           \<comment> \<open>\<open>new Error('userId required')\<close>\<close>
  | StorageError string      \<comment> \<open>the error object of a storage call, thrown as it is\<close>
  | EdgeFunctionError string \<comment> \<open>\<open>new Error('Recommendation Edge Function error: ...')\<close>\<close>
  | NoDataReturned           \<comment> \<open>\<open>new Error('No data returned from recommendation service')\<close>\<close>
  | InvalidResponseFormat    \<comment> \<open>\<open>new Error('Invalid response format: listings must be an array')\<close>\<close>
  | InvokeRejected string    \<comment> \<open>a rejected promise of \<open>functions.invoke\<close>\<close>

text \<open>JavaScript's \<open>!x\<close> on an optional string: null and the empty string are falsy.\<close>

definition falsy_str :: "string option \<Rightarrow> bool" where
  "falsy_str x = (case x of None \<Rightarrow> True | Some s \<Rightarrow> s = [])"

text \<open>\<open>.single()\<close> of the query builder: the one row, or the error PGRST116.\<close>

definition single :: "'a list \<Rightarrow> string + 'a" where
  "single rows = (case rows of [r] \<Rightarrow> Inr r | _ \<Rightarrow> Inl ''PGRST116'')"

subsection \<open>Tables of the event service\<close>

text \<open>
  The schema the event service assumes (its header comment): \<open>events\<close> with id, tags,
  category; \<open>event_ratings\<close> with id, user_id, event_id, rating, comment;
  \<open>user_preferences\<close> with user_id, tag, score and a unique constraint on
  (user_id, tag), which is why that table is a map from the pair.
\<close>

record event_rating =
  er_id :: nat
  er_user_id :: string
  er_event_id :: string
  er_rating :: rat
  er_comment :: "string option"

record event =
  ev_tags :: "string list option"
  ev_category :: "string option"

record database =
  event_ratings :: "event_rating list"
  events :: "string \<rightharpoonup> event"
  user_preferences :: "string \<times> string \<rightharpoonup> rat"

section \<open>Event service\<close>

subsection \<open>fetchEvents and getEventById\<close>

text \<open>
  Both functions compute the statistics of an event with the same expression:
  \<open>ratings.length ? ratings.reduce((s, r) => s + Number(r.rating || 0), 0) / ratings.length : null\<close>
  and \<open>ratingsCount: ratings.length\<close>.
\<close>

definition num_or_zero :: "rat \<Rightarrow> rat" where
  "num_or_zero x = (if x = 0 then 0 else x)"

definition avg_rating :: "event_rating list \<Rightarrow> rat option" where
  "avg_rating ratings =
     (if length ratings \<noteq> 0
      then Some (foldl (\<lambda>s r. s + num_or_zero (er_rating r)) 0 ratings / of_nat (length ratings))
      else None)"

record event_view =
  view_id :: string
  view_event :: event
  view_ratings :: "event_rating list"
  avgRating :: "rat option"
  ratingsCount :: nat

text \<open>A row of the query \<open>select('*, event_ratings(rating)')\<close>: an event with its joined ratings,
  which may be null.\<close>

record joined_event =
  je_id :: string
  je_event :: event
  je_event_ratings :: "event_rating list option"

definition with_stats :: "joined_event \<Rightarrow> event_view" where
  "with_stats evt =
     (let ratings = (case je_event_ratings evt of None \<Rightarrow> [] | Some rs \<Rightarrow> rs)
      in \<lparr>view_id = je_id evt, view_event = je_event evt, view_ratings = ratings,
          avgRating = avg_rating ratings, ratingsCount = length ratings\<rparr>)"

text \<open>
  \<open>fetchEvents\<close>: filtering by tags, paging and ordering are done by the storage layer;
  the function receives the rows (or the error, which it rethrows) and maps them.
\<close>

definition fetchEvents :: "string + joined_event list option \<Rightarrow> error + event_view list" where
  "fetchEvents reply =
     (case reply of
        Inl e \<Rightarrow> Inl (StorageError e)
      | Inr data \<Rightarrow> Inr (map with_stats (case data of None \<Rightarrow> [] | Some rows \<Rightarrow> rows)))"

text \<open>The join \<open>event_ratings(...)\<close> of one event: the rating rows that refer to it.\<close>

definition ratings_of :: "string \<Rightarrow> database \<Rightarrow> event_rating list" where
  "ratings_of eid db = filter (\<lambda>r. er_event_id r = eid) (event_ratings db)"

definition getEventById :: "string option \<Rightarrow> fault \<Rightarrow> database \<Rightarrow> error + event_view" where
  "getEventById eventId fault db =
     (case eventId of
        None \<Rightarrow> Inl EventIdIsRequired
      | Some eid \<Rightarrow>
          if eid = [] then Inl EventIdIsRequired
          else (case fault of
                  Some e \<Rightarrow> Inl (StorageError e)
                | None \<Rightarrow>
                    (case events db eid of
                       None \<Rightarrow> Inl (StorageError ''PGRST116'')
                     | Some evt \<Rightarrow>
                         Inr (with_stats \<lparr>je_id = eid, je_event = evt,
                                           je_event_ratings = Some (ratings_of eid db)\<rparr>))))"

subsection \<open>computePreferenceDelta\<close>

text \<open>The weight is an optional parameter with the default 1.0.\<close>

definition computePreferenceDelta :: "rat \<Rightarrow> rat option \<Rightarrow> rat" where
  "computePreferenceDelta rating weight_arg =
     (let weight = (case weight_arg of None \<Rightarrow> 1 | Some w \<Rightarrow> w);
          center = 3;
          delta = (rating - center) * weight
      in delta)"

subsection \<open>updateUserPreferences\<close>

text \<open>
  One turn of the loop per tag: select the row of (user, tag) with \<open>.single()\<close>, take its
  score or 0, add the delta, upsert. The branch on the error of the select is empty in the
  source, so a failed select leaves \<open>existing\<close> null and the loop goes on with 0. Each tag
  has a pair of faults (select, upsert); a missing pair means both calls are executed.
  An upsert answered with an error throws: the tags before it stay written.
\<close>

type_synonym prefs = "string \<times> string \<rightharpoonup> rat"

fun updateUserPreferences_loop ::
  "string \<Rightarrow> string list \<Rightarrow> rat \<Rightarrow> (fault \<times> fault) list \<Rightarrow> prefs \<Rightarrow> error option \<times> prefs" where
  "updateUserPreferences_loop uid [] delta fs p = (None, p)"
| "updateUserPreferences_loop uid (tag # tags) delta fs p =
     (let fetchErr = (case fs of [] \<Rightarrow> None | f # _ \<Rightarrow> fst f);
          upsertErr = (case fs of [] \<Rightarrow> None | f # _ \<Rightarrow> snd f);
          existing = (case fetchErr of Some _ \<Rightarrow> None | None \<Rightarrow> p (uid, tag));
          currentScore = (case existing of None \<Rightarrow> 0 | Some s \<Rightarrow> s);
          newScore = currentScore + delta
      in case upsertErr of
           Some e \<Rightarrow> (Some (StorageError e), p)
         | None \<Rightarrow> updateUserPreferences_loop uid tags delta (tl fs) (p((uid, tag) \<mapsto> newScore)))"

text \<open>The result is \<open>undefined\<close> (\<open>None\<close>) for an empty tag list and \<open>true\<close> otherwise.\<close>

definition updateUserPreferences ::
  "string option \<Rightarrow> string list \<Rightarrow> rat \<Rightarrow> (fault \<times> fault) list \<Rightarrow> database
     \<Rightarrow> (error + bool option) \<times> database" where
  "updateUserPreferences userId tags delta fs db =
     (case userId of
        None \<Rightarrow> (Inl UserIdRequired, db)
      | Some uid \<Rightarrow>
          if uid = [] then (Inl UserIdRequired, db)
          else if length tags = 0 then (Inr None, db)
          else (case updateUserPreferences_loop uid tags delta fs (user_preferences db) of
                  (Some err, p) \<Rightarrow> (Inl err, db\<lparr>user_preferences := p\<rparr>)
                | (None, p) \<Rightarrow> (Inr (Some True), db\<lparr>user_preferences := p\<rparr>)))"

subsection \<open>addRating\<close>

record rating_input =
  userId :: "string option"
  eventId :: "string option"
  rating :: "rat option"
  comment :: "string option"

text \<open>
  What the environment answers during one call of \<open>addRating\<close>: the user of the session
  (\<open>getCurrentUserId\<close>, null when there is none), and a fault for each storage call in
  the order of the source.
\<close>

record rating_env =
  session_user :: "string option"
  lookup_fault :: fault
  write_fault :: fault
  event_fault :: fault
  prefs_faults :: "(fault \<times> fault) list"
  readback_fault :: fault

text \<open>The id the database gives an inserted row: one above every id in the table.\<close>

definition next_id :: "event_rating list \<Rightarrow> nat" where
  "next_id rows = Suc (foldr max (map er_id rows) 0)"

definition update_rating :: "nat \<Rightarrow> rat \<Rightarrow> string option \<Rightarrow> event_rating list \<Rightarrow> event_rating list" where
  "update_rating i r c rows =
     map (\<lambda>row. if er_id row = i then row\<lparr>er_rating := r, er_comment := c\<rparr> else row) rows"

definition insert_rating :: "string \<Rightarrow> string \<Rightarrow> rat \<Rightarrow> string option \<Rightarrow> event_rating list \<Rightarrow> event_rating list" where
  "insert_rating uid eid r c rows =
     rows @ [\<lparr>er_id = next_id rows, er_user_id = uid, er_event_id = eid, er_rating = r, er_comment = c\<rparr>]"

text \<open>A write to a table: answered with an error, it throws and changes nothing.\<close>

definition storage_write :: "fault \<Rightarrow> 'a \<Rightarrow> 'a \<Rightarrow> error option \<times> 'a" where
  "storage_write f new old = (case f of Some e \<Rightarrow> (Some (StorageError e), old) | None \<Rightarrow> (None, new))"

text \<open>
  The first half of the \<open>try\<close> block: look the rating of (user, event) up with
  \<open>.single()\<close>, then update it by id or insert a new row. The branch on the error of
  the lookup is empty in the source: a lookup answered with an error leaves
  \<open>existing\<close> null, as a lookup that finds no row (or several) does.
\<close>

definition write_rating ::
  "string \<Rightarrow> string \<Rightarrow> rat \<Rightarrow> string option \<Rightarrow> fault \<Rightarrow> fault \<Rightarrow> event_rating list
     \<Rightarrow> error option \<times> event_rating list" where
  "write_rating uid eid r c lookupF writeF rows =
     (let existing =
            (case lookupF of
               Some _ \<Rightarrow> None
             | None \<Rightarrow>
                 (case single (filter (\<lambda>row. er_user_id row = uid \<and> er_event_id row = eid) rows) of
                    Inl _ \<Rightarrow> None
                  | Inr row \<Rightarrow> Some row))
      in case existing of
           Some row \<Rightarrow>
             if er_id row \<noteq> 0
             then storage_write writeF (update_rating (er_id row) r c rows) rows
             else storage_write writeF (insert_rating uid eid r c rows) rows
         | None \<Rightarrow> storage_write writeF (insert_rating uid eid r c rows) rows)"

text \<open>\<open>event.tags || (event.category ? [event.category] : [])\<close>; an empty array is truthy.\<close>

definition tags_of :: "event \<Rightarrow> string list" where
  "tags_of evt =
     (case ev_tags evt of
        Some ts \<Rightarrow> ts
      | None \<Rightarrow>
          (case ev_category evt of
             None \<Rightarrow> []
           | Some cat \<Rightarrow> if cat = [] then [] else [cat]))"

text \<open>The second half of the \<open>try\<close> block, after the rating is written.\<close>

definition after_rating ::
  "string \<Rightarrow> string \<Rightarrow> rat \<Rightarrow> rating_env \<Rightarrow> database \<Rightarrow> (error + event_view) \<times> database" where
  "after_rating uid eid r env db =
     (case event_fault env of
        Some e \<Rightarrow> (Inl (StorageError e), db)
      | None \<Rightarrow>
          (case events db eid of
             None \<Rightarrow> (Inl (StorageError ''PGRST116''), db)
           | Some evt \<Rightarrow>
               (let tags = tags_of evt;
                    delta = computePreferenceDelta r (Some 1)
                in case updateUserPreferences (Some uid) tags delta (prefs_faults env) db of
                     (Inl err, db') \<Rightarrow> (Inl err, db')
                   | (Inr _, db') \<Rightarrow> (getEventById (Some eid) (readback_fault env) db', db'))))"

text \<open>
  The checks before the \<open>try\<close> block, in the order of the source; the \<open>catch\<close> logs
  and rethrows, so every error of the block is the error of the call.
\<close>

definition addRating :: "rating_input \<Rightarrow> rating_env \<Rightarrow> database \<Rightarrow> (error + event_view) \<times> database" where
  "addRating inp env db =
     (case eventId inp of
        None \<Rightarrow> (Inl EventIdRequired, db)
      | Some eid \<Rightarrow>
          if eid = [] then (Inl EventIdRequired, db)
          else
            (case rating inp of
               None \<Rightarrow> (Inl RatingRequired, db)
             | Some r \<Rightarrow>
                 if r = 0 then (Inl RatingRequired, db)
                 else
                   (case (if falsy_str (userId inp) then session_user env else userId inp) of
                      None \<Rightarrow> (Inl UserNotAuthenticated, db)
                    | Some uid \<Rightarrow>
                        if uid = [] then (Inl UserNotAuthenticated, db)
                        else
                          (case write_rating uid eid r (comment inp)
                                  (lookup_fault env) (write_fault env) (event_ratings db) of
                             (Some err, rows) \<Rightarrow> (Inl err, db\<lparr>event_ratings := rows\<rparr>)
                           | (None, rows) \<Rightarrow>
                               after_rating uid eid r env (db\<lparr>event_ratings := rows\<rparr>)))))"

section \<open>Recommendation service\<close>

text \<open>
  A value of the response body of the edge function. \<open>JUndefined\<close> is what reading an
  absent field gives.
\<close>

datatype json =
    JUndefined
  | JNull
  | JBool bool
  | JNum rat
  | JStr string
  | JArr "json list"
  | JObj "(string \<times> json) list"

fun truthy :: "json \<Rightarrow> bool" where
  "truthy JUndefined = False"
| "truthy JNull = False"
| "truthy (JBool b) = b"
| "truthy (JNum n) = (n \<noteq> 0)"
| "truthy (JStr s) = (s \<noteq> [])"
| "truthy (JArr _) = True"
| "truthy (JObj _) = True"

text \<open>\<open>v.k\<close> on a value that is neither null nor undefined.\<close>

fun field :: "string \<Rightarrow> json \<Rightarrow> json" where
  "field k (JObj fs) = (case map_of fs k of Some v \<Rightarrow> v | None \<Rightarrow> JUndefined)"
| "field k _ = JUndefined"

fun isArray :: "json \<Rightarrow> bool" where
  "isArray (JArr _) = True"
| "isArray _ = False"

datatype RecommendationContext = Fyp | Explore | After_booking | Trip

record location =
  lat :: rat
  lng :: rat

record request_params =
  rp_location :: "location option"
  rp_seedListingId :: "string option"
  rp_tripId :: "string option"

record RecommendationRequest =
  rq_context :: RecommendationContext
  rq_userId :: string
  rq_params :: "request_params option"

text \<open>
  What \<open>supabase.functions.invoke\<close> gives for one request: a rejected promise, or the
  pair \<open>{data, error}\<close>. The engine behind it is not part of the program.
\<close>

datatype invoke_outcome =
    Rejected string
  | Resolved json "string option"

definition callRecommendationFunction :: "RecommendationRequest \<Rightarrow> invoke_outcome \<Rightarrow> error + json" where
  "callRecommendationFunction request outcome =
     (case outcome of
        Rejected e \<Rightarrow> Inl (InvokeRejected e)
      | Resolved data err \<Rightarrow>
          (case err of
             Some m \<Rightarrow> Inl (EdgeFunctionError m)
           | None \<Rightarrow>
               if \<not> truthy data then Inl NoDataReturned
               else if \<not> isArray (field ''listings'' data) then Inl InvalidResponseFormat
               else Inr data))"

text \<open>The four readers return \<open>response.listings\<close>, or \<open>[]\<close> when the call threw.\<close>

definition listings_or_empty :: "error + json \<Rightarrow> json" where
  "listings_or_empty r = (case r of Inr response \<Rightarrow> field ''listings'' response | Inl _ \<Rightarrow> JArr [])"

definition getForYou :: "string \<Rightarrow> invoke_outcome \<Rightarrow> json" where
  "getForYou uid outcome =
     listings_or_empty
       (callRecommendationFunction \<lparr>rq_context = Fyp, rq_userId = uid, rq_params = None\<rparr> outcome)"

definition getExplore :: "string \<Rightarrow> location option \<Rightarrow> invoke_outcome \<Rightarrow> json" where
  "getExplore uid loc outcome =
     listings_or_empty
       (callRecommendationFunction
          \<lparr>rq_context = Explore, rq_userId = uid,
           rq_params = (case loc of
                          Some l \<Rightarrow> Some \<lparr>rp_location = Some l, rp_seedListingId = None, rp_tripId = None\<rparr>
                        | None \<Rightarrow> None)\<rparr> outcome)"

definition getAfterBooking :: "string \<Rightarrow> string \<Rightarrow> invoke_outcome \<Rightarrow> json" where
  "getAfterBooking uid seed outcome =
     listings_or_empty
       (callRecommendationFunction
          \<lparr>rq_context = After_booking, rq_userId = uid,
           rq_params = Some \<lparr>rp_location = None, rp_seedListingId = Some seed, rp_tripId = None\<rparr>\<rparr>
          outcome)"

definition getTripSuggestions :: "string \<Rightarrow> string \<Rightarrow> invoke_outcome \<Rightarrow> json" where
  "getTripSuggestions uid trip outcome =
     listings_or_empty
       (callRecommendationFunction
          \<lparr>rq_context = Trip, rq_userId = uid,
           rq_params = Some \<lparr>rp_location = None, rp_seedListingId = None, rp_tripId = Some trip\<rparr>\<rparr>
          outcome)"

text \<open>
  \<open>recordInteraction\<close> does not await the invocation: a rejection goes to the
  \<open>.catch\<close> of the promise, and the surrounding \<open>try\<close> swallows what is left.
\<close>

datatype recommended_action = RView | RClick | RSave | RBook | RDismiss

definition recordInteraction ::
  "string \<Rightarrow> string \<Rightarrow> recommended_action \<Rightarrow> RecommendationContext \<Rightarrow> invoke_outcome \<Rightarrow> error + unit" where
  "recordInteraction uid listingId interactionType ctx outcome =
     (case outcome of Rejected _ \<Rightarrow> Inr () | Resolved _ _ \<Rightarrow> Inr ())"

section \<open>Interaction service\<close>

datatype InteractionType =
  View | Save | Book | Swipe_left | Swipe_right | Click | Share | Message

datatype SwipeDirection = Left | Right

text \<open>A row of \<open>user_interactions\<close>; the creation time is left out.\<close>

record interaction =
  ui_user_id :: string
  ui_listing_id :: string
  ui_property_id :: "string option"
  ui_interaction_type :: InteractionType
  ui_weight :: rat
  ui_metadata :: "json option"

text \<open>The private refresh hint: every failure of the invocation is swallowed.\<close>

definition triggerRefresh :: "string \<Rightarrow> invoke_outcome \<Rightarrow> error + unit" where
  "triggerRefresh uid outcome = (case outcome of Rejected _ \<Rightarrow> Inr () | Resolved _ _ \<Rightarrow> Inr ())"

text \<open>
  \<open>_insertInteraction\<close>: false when the insert is answered with an error; otherwise the
  refresh hint is fired without being awaited, and the result is true.
\<close>

definition insertInteraction :: "interaction \<Rightarrow> fault \<Rightarrow> invoke_outcome \<Rightarrow> interaction list \<Rightarrow> bool \<times> interaction list" where
  "insertInteraction row insertF outcome tbl =
     (case insertF of
        Some _ \<Rightarrow> (False, tbl)
      | None \<Rightarrow>
          (case triggerRefresh (ui_user_id row) outcome of
             Inl _ \<Rightarrow> (True, tbl @ [row])
           | Inr _ \<Rightarrow> (True, tbl @ [row])))"

definition trackView :: "string \<Rightarrow> string \<Rightarrow> string option \<Rightarrow> fault \<Rightarrow> invoke_outcome \<Rightarrow> interaction list \<Rightarrow> bool \<times> interaction list" where
  "trackView uid lid pid =
     insertInteraction \<lparr>ui_user_id = uid, ui_listing_id = lid, ui_property_id = pid,
                        ui_interaction_type = View, ui_weight = 1, ui_metadata = None\<rparr>"

definition trackSave :: "string \<Rightarrow> string \<Rightarrow> string option \<Rightarrow> fault \<Rightarrow> invoke_outcome \<Rightarrow> interaction list \<Rightarrow> bool \<times> interaction list" where
  "trackSave uid lid pid =
     insertInteraction \<lparr>ui_user_id = uid, ui_listing_id = lid, ui_property_id = pid,
                        ui_interaction_type = Save, ui_weight = 3, ui_metadata = None\<rparr>"

definition trackBooking :: "string \<Rightarrow> string \<Rightarrow> string option \<Rightarrow> fault \<Rightarrow> invoke_outcome \<Rightarrow> interaction list \<Rightarrow> bool \<times> interaction list" where
  "trackBooking uid lid pid =
     insertInteraction \<lparr>ui_user_id = uid, ui_listing_id = lid, ui_property_id = pid,
                        ui_interaction_type = Book, ui_weight = 10, ui_metadata = None\<rparr>"

definition trackSwipe :: "string \<Rightarrow> string \<Rightarrow> SwipeDirection \<Rightarrow> string option \<Rightarrow> fault \<Rightarrow> invoke_outcome \<Rightarrow> interaction list \<Rightarrow> bool \<times> interaction list" where
  "trackSwipe uid lid direction pid =
     (let interactionType = (if direction = Left then Swipe_left else Swipe_right);
          weight = (if direction = Left then - 2 else 1)
      in insertInteraction \<lparr>ui_user_id = uid, ui_listing_id = lid, ui_property_id = pid,
                            ui_interaction_type = interactionType, ui_weight = weight,
                            ui_metadata = None\<rparr>)"

definition trackClick :: "string \<Rightarrow> string \<Rightarrow> string option \<Rightarrow> fault \<Rightarrow> invoke_outcome \<Rightarrow> interaction list \<Rightarrow> bool \<times> interaction list" where
  "trackClick uid lid pid =
     insertInteraction \<lparr>ui_user_id = uid, ui_listing_id = lid, ui_property_id = pid,
                        ui_interaction_type = Click, ui_weight = 2, ui_metadata = None\<rparr>"

definition trackShare :: "string \<Rightarrow> string \<Rightarrow> string option \<Rightarrow> fault \<Rightarrow> invoke_outcome \<Rightarrow> interaction list \<Rightarrow> bool \<times> interaction list" where
  "trackShare uid lid pid =
     insertInteraction \<lparr>ui_user_id = uid, ui_listing_id = lid, ui_property_id = pid,
                        ui_interaction_type = Share, ui_weight = 5, ui_metadata = None\<rparr>"

definition trackMessage :: "string \<Rightarrow> string \<Rightarrow> string option \<Rightarrow> fault \<Rightarrow> invoke_outcome \<Rightarrow> interaction list \<Rightarrow> bool \<times> interaction list" where
  "trackMessage uid lid pid =
     insertInteraction \<lparr>ui_user_id = uid, ui_listing_id = lid, ui_property_id = pid,
                        ui_interaction_type = Message, ui_weight = 4, ui_metadata = None\<rparr>"

text \<open>
  \<open>trackBatch\<close> takes the kind and the weight of every item from the caller, renames
  the fields to the columns and inserts all rows with one call.
\<close>

record batch_item =
  bi_userId :: string
  bi_listingId :: string
  bi_propertyId :: "string option"
  bi_interactionType :: InteractionType
  bi_weight :: rat
  bi_metadata :: "json option"

definition trackBatch :: "batch_item list \<Rightarrow> fault \<Rightarrow> interaction list \<Rightarrow> bool \<times> interaction list" where
  "trackBatch interactions insertF tbl =
     (let formattedInteractions =
            map (\<lambda>i. \<lparr>ui_user_id = bi_userId i, ui_listing_id = bi_listingId i,
                       ui_property_id = bi_propertyId i,
                       ui_interaction_type = bi_interactionType i, ui_weight = bi_weight i,
                       ui_metadata = bi_metadata i\<rparr>) interactions
      in case insertF of
           Some _ \<Rightarrow> (False, tbl)
         | None \<Rightarrow> (True, tbl @ formattedInteractions))"

section \<open>Listing service\<close>

record RatingInput =
  li_userId :: string
  li_listingId :: string
  li_rating :: rat
  li_reviewText :: "string option"
  li_tripId :: "string option"

record listing_rating =
  lr_rating :: rat
  lr_review_text :: "string option"
  lr_trip_id :: "string option"

text \<open>
  Modelled from the spec: the key of the \<open>ratings\<close> table. Its schema is not among the
  sources; the spec gives the ratings store as unique on user and target, so the table is
  a map from (user_id, listing_id) and the upsert replaces the row of that pair.
\<close>

type_synonym ratings_table = "string \<times> string \<rightharpoonup> listing_rating"

record rating_result =
  success :: bool
  newAverage :: "rat option"

text \<open>
  The answers during one call of \<open>updateListingRating\<close>: the fault of the upsert, the
  reply of the stored procedure \<open>calculate_listing_average\<close> (its error, or the
  \<open>average_rating\<close> of its data) and the outcome of the notification.
\<close>

record listing_env =
  upsert_fault :: fault
  average_reply :: "string + rat option"
  notify_outcome :: invoke_outcome

datatype trigger_action = AView | ASave | ARate | AAdd_to_trip | ABook

record trigger_context =
  tc_listingId :: "string option"
  tc_rating :: "rat option"
  tc_action :: "trigger_action option"

definition triggerRecommendationUpdate :: "string \<Rightarrow> trigger_context \<Rightarrow> invoke_outcome \<Rightarrow> error + unit" where
  "triggerRecommendationUpdate uid ctx outcome =
     (case outcome of Rejected _ \<Rightarrow> Inr () | Resolved _ _ \<Rightarrow> Inr ())"

text \<open>
  The outer \<open>catch\<close> of \<open>updateListingRating\<close> turns every error of the block into
  the value \<open>{ success: false }\<close>: the function never throws.
\<close>

definition updateListingRating :: "RatingInput \<Rightarrow> listing_env \<Rightarrow> ratings_table \<Rightarrow> rating_result \<times> ratings_table" where
  "updateListingRating input env tbl =
     (case upsert_fault env of
        Some _ \<Rightarrow> (\<lparr>success = False, newAverage = None\<rparr>, tbl)
      | None \<Rightarrow>
          (let tbl' = tbl((li_userId input, li_listingId input) \<mapsto>
                        \<lparr>lr_rating = li_rating input, lr_review_text = li_reviewText input,
                         lr_trip_id = li_tripId input\<rparr>);
               avgData = (case average_reply env of Inl _ \<Rightarrow> None | Inr a \<Rightarrow> a)
           in case triggerRecommendationUpdate (li_userId input)
                     \<lparr>tc_listingId = Some (li_listingId input), tc_rating = Some (li_rating input),
                      tc_action = None\<rparr> (notify_outcome env) of
                Inl _ \<Rightarrow> (\<lparr>success = False, newAverage = None\<rparr>, tbl')
              | Inr _ \<Rightarrow> (\<lparr>success = True, newAverage = avgData\<rparr>, tbl')))"

section \<open>Notions used in the statements\<close>

text \<open>The score of a (user, tag) key as the ledger reads it: 0 when the key has no row.\<close>

definition score :: "prefs \<Rightarrow> string \<Rightarrow> string \<Rightarrow> rat" where
  "score p uid tag = (case p (uid, tag) of None \<Rightarrow> 0 | Some s \<Rightarrow> s)"

text \<open>
  A caller that applies the deltas of a list to one tag, one call of
  \<open>updateUserPreferences\<close> after the other, every storage call being executed.
\<close>

definition applyDeltas :: "string \<Rightarrow> string \<Rightarrow> rat list \<Rightarrow> database \<Rightarrow> database" where
  "applyDeltas uid tag ds db =
     foldl (\<lambda>d delta. snd (updateUserPreferences (Some uid) [tag] delta [] d)) db ds"

text \<open>The rating rows of a (user, event) pair, and the two conditions a table of ratings
  keeps: ids are distinct and not 0, and no pair has two rows.\<close>

definition rows_for :: "string \<Rightarrow> string \<Rightarrow> event_rating list \<Rightarrow> event_rating list" where
  "rows_for uid eid rows = filter (\<lambda>row. er_user_id row = uid \<and> er_event_id row = eid) rows"

definition ids_ok :: "event_rating list \<Rightarrow> bool" where
  "ids_ok rows = (distinct (map er_id rows) \<and> 0 \<notin> set (map er_id rows))"

definition one_row_per_pair :: "event_rating list \<Rightarrow> bool" where
  "one_row_per_pair rows = distinct (map (\<lambda>row. (er_user_id row, er_event_id row)) rows)"

text \<open>An environment in which every storage call is executed, and a small database.\<close>

definition healthy :: rating_env where
  "healthy = \<lparr>session_user = None, lookup_fault = None, write_fault = None, event_fault = None,
              prefs_faults = [], readback_fault = None\<rparr>"

definition music_event :: event where
  "music_event = \<lparr>ev_tags = Some [''music''], ev_category = None\<rparr>"

definition example_db :: database where
  "example_db = \<lparr>event_ratings = [], events = [''e1'' \<mapsto> music_event],
                  user_preferences = Map.empty\<rparr>"

definition rated_db :: database where
  "rated_db = \<lparr>event_ratings = [\<lparr>er_id = 1, er_user_id = ''u1'', er_event_id = ''e1'',
                                  er_rating = 3, er_comment = None\<rparr>],
               events = [''e1'' \<mapsto> music_event],
               user_preferences = [(''u1'', ''music'') \<mapsto> 5]\<rparr>"

definition rate :: "rat \<Rightarrow> rating_input" where
  "rate r = \<lparr>userId = Some ''u1'', eventId = Some ''e1'', rating = Some r, comment = None\<rparr>"

text \<open>The arithmetic mean of a list of numbers, null for the empty list.\<close>

definition mean :: "rat list \<Rightarrow> rat option" where
  "mean xs = (if xs = [] then None else Some (sum_list xs / of_nat (length xs)))"

text \<open>The weight table as the specification words it.\<close>

fun weightOf_spec :: "InteractionType \<Rightarrow> rat" where
  "weightOf_spec View = 1"
| "weightOf_spec Click = 2"
| "weightOf_spec Message = 4"
| "weightOf_spec Share = 5"
| "weightOf_spec Save = 3"
| "weightOf_spec Book = 10"
| "weightOf_spec Swipe_left = - 2"
| "weightOf_spec Swipe_right = 1"

text \<open>The row a tracking function writes for a kind and a weight.\<close>

definition tracked :: "string \<Rightarrow> string \<Rightarrow> string option \<Rightarrow> InteractionType \<Rightarrow> rat \<Rightarrow> interaction" where
  "tracked uid lid pid k w =
     \<lparr>ui_user_id = uid, ui_listing_id = lid, ui_property_id = pid, ui_interaction_type = k,
      ui_weight = w, ui_metadata = None\<rparr>"

definition one_card_response :: json where
  "one_card_response = JObj [(''listings'', JArr [JObj [(''id'', JStr ''a'')]])]"

definition healthy_listing :: listing_env where
  "healthy_listing = \<lparr>upsert_fault = None, average_reply = Inr (Some 4),
                      notify_outcome = Resolved JNull None\<rparr>"

definition listing_input :: RatingInput where
  "listing_input = \<lparr>li_userId = ''u1'', li_listingId = ''l1'', li_rating = 4,
                    li_reviewText = None, li_tripId = None\<rparr>"

section \<open>Rating statistics of an event\<close>

lemma foldl_ratings: "foldl (\<lambda>s r. s + num_or_zero (er_rating r)) a rs = a + sum_list (map er_rating rs)"
  by (induction rs arbitrary: a) (auto simp: num_or_zero_def)

lemma avg_rating_mean: "avg_rating rs = mean (map er_rating rs)"
  by (simp add: avg_rating_def mean_def foldl_ratings)

text \<open>
  C10. \<open>getEventById\<close> and \<open>fetchEvents\<close> return every event with \<open>avgRating\<close> the
  arithmetic mean of its rating rows, null when there is none, and \<open>ratingsCount\<close> the
  number of rows (0 when there is none, which is also what a null join gives).
\<close>

theorem event_rating_stats:
  "(eid \<noteq> [] \<and> events db eid = Some evt \<longrightarrow>
      getEventById (Some eid) None db =
        Inr \<lparr>view_id = eid, view_event = evt, view_ratings = ratings_of eid db,
             avgRating = mean (map er_rating (ratings_of eid db)),
             ratingsCount = length (ratings_of eid db)\<rparr>)
   \<and> fetchEvents (Inr (Some rows)) =
        Inr (map (\<lambda>evt. let rs = (case je_event_ratings evt of None \<Rightarrow> [] | Some rs \<Rightarrow> rs)
                        in \<lparr>view_id = je_id evt, view_event = je_event evt, view_ratings = rs,
                            avgRating = mean (map er_rating rs), ratingsCount = length rs\<rparr>) rows)
   \<and> mean [] = None
   \<and> (xs \<noteq> [] \<longrightarrow> mean xs = Some (sum_list xs / of_nat (length xs)))"
  by (simp add: getEventById_def fetchEvents_def with_stats_def avg_rating_mean Let_def mean_def)

theorem event_rating_stats_witness:
  "getEventById (Some ''e1'') None rated_db =
     Inr \<lparr>view_id = ''e1'', view_event = music_event,
          view_ratings = [\<lparr>er_id = 1, er_user_id = ''u1'', er_event_id = ''e1'', er_rating = 3, er_comment = None\<rparr>],
          avgRating = Some 3, ratingsCount = 1\<rparr>
   \<and> avgRating (projr (getEventById (Some ''e1'') None example_db)) = None
   \<and> ratingsCount (projr (getEventById (Some ''e1'') None example_db)) = 0
   \<and> mean [2, 4, 5] = Some (11 / 3)"
  using event_rating_stats [of "''e1''" rated_db music_event "[]" "[2, 4, 5]"]
        event_rating_stats [of "''e1''" example_db music_event "[]" "[2, 4, 5]"]
  by (simp add: rated_db_def example_db_def ratings_of_def mean_def)


section \<open>The preference ledger\<close>

lemma loop_no_fault:
  "updateUserPreferences_loop uid tags delta [] p = (None, p') \<Longrightarrow>
     score p' uid t = score p uid t + of_nat (count_list tags t) * delta"
proof (induction tags arbitrary: p)
  case Nil
  then show ?case by simp
next
  case (Cons a tags)
  then show ?case
    by (auto simp: score_def Let_def algebra_simps split: option.splits)
qed

lemma loop_no_fault_total:
  "\<exists>p'. updateUserPreferences_loop uid tags delta [] p = (None, p')"
  by (induction tags arbitrary: p) (auto simp: Let_def)

lemma one_call:
  assumes "uid \<noteq> []"
  shows "score (user_preferences (snd (updateUserPreferences (Some uid) [tag] delta [] db))) uid tag
           = score (user_preferences db) uid tag + delta"
  using assms by (simp add: updateUserPreferences_def score_def Let_def split: option.splits)

lemma applyDeltas_sum:
  assumes "uid \<noteq> []"
  shows "score (user_preferences (applyDeltas uid tag ds db)) uid tag
           = score (user_preferences db) uid tag + sum_list ds"
  unfolding applyDeltas_def using assms
proof (induction ds arbitrary: db)
  case Nil
  then show ?case by simp
next
  case (Cons d ds)
  show ?case using Cons.IH[OF Cons.prems] one_call[OF Cons.prems]
    by (simp add: add.assoc)
qed

lemma applyDeltas_perm:
  assumes "uid \<noteq> []" "mset ds = mset ds'"
  shows "score (user_preferences (applyDeltas uid tag ds db)) uid tag
           = score (user_preferences (applyDeltas uid tag ds' db)) uid tag"
proof -
  have "sum_list ds = sum_list ds'"
    using assms(2) by (metis sum_mset_sum_list)
  then show ?thesis by (simp add: applyDeltas_sum[OF assms(1)])
qed


lemma failed_select_overwrites:
  assumes "uid \<noteq> []"
  shows "updateUserPreferences (Some uid) [tag] delta [(Some e, None)] db
           = (Inr (Some True), db\<lparr>user_preferences := (user_preferences db)((uid, tag) \<mapsto> delta)\<rparr>)"
  using assms by (simp add: updateUserPreferences_def Let_def)

text \<open>
  C1. A sequence of calls of \<open>updateUserPreferences\<close> for one (user, tag) key leaves the
  prior score plus the sum of the deltas, in every order of the calls. Lemmas
  \<open>applyDeltas_sum\<close> and \<open>applyDeltas_perm\<close> show it for calls whose storage calls
  are all executed. The function does not keep it
  when the select of a call is answered with an error: the branch that its comment says
  rethrows is empty, the score is taken to be 0, and the call still returns true. Below,
  the key holds 5, one call adds 2, and the key holds 2 afterwards, not 7.
\<close>

theorem updateUserPreferences_failed_select_resets_score:
  "user_preferences rated_db (''u1'', ''music'') = Some 5
   \<and> fst (updateUserPreferences (Some ''u1'') [''music''] 2 [(Some ''57014'', None)] rated_db) = Inr (Some True)
   \<and> user_preferences (snd (updateUserPreferences (Some ''u1'') [''music''] 2 [(Some ''57014'', None)] rated_db))
        (''u1'', ''music'') = Some 2"
  by (simp add: updateUserPreferences_def rated_db_def Let_def)

section \<open>The rating of a (user, event) pair\<close>

lemma next_id_greater: "row \<in> set rows \<Longrightarrow> er_id row < next_id rows"
  by (induction rows) (auto simp: next_id_def)

lemma write_rating_insert:
  assumes "rows_for uid eid rows = []" "ids_ok rows" "one_row_per_pair rows"
  shows "\<exists>rows'. write_rating uid eid r c None None rows = (None, rows') \<and> ids_ok rows' \<and> one_row_per_pair rows'
          \<and> (\<exists>row. rows_for uid eid rows' = [row] \<and> er_rating row = r)"
proof -
  have w: "write_rating uid eid r c None None rows = (None, insert_rating uid eid r c rows)"
    using assms(1) by (simp add: write_rating_def rows_for_def single_def storage_write_def)
  have fresh: "next_id rows \<notin> set (map er_id rows)"
    using next_id_greater by fastforce
  have key: "(uid, eid) \<notin> set (map (\<lambda>row. (er_user_id row, er_event_id row)) rows)"
    using assms(1) by (auto simp: rows_for_def filter_empty_conv)
  have "ids_ok (insert_rating uid eid r c rows)"
    using assms(2) fresh by (simp add: ids_ok_def insert_rating_def next_id_def)
  moreover have "one_row_per_pair (insert_rating uid eid r c rows)"
    using assms(3) key by (simp add: one_row_per_pair_def insert_rating_def)
  moreover have "\<exists>row. rows_for uid eid (insert_rating uid eid r c rows) = [row] \<and> er_rating row = r"
    using assms(1) by (simp add: rows_for_def insert_rating_def)
  ultimately show ?thesis using w by simp
qed

lemma filter_pair_le_one:
  "distinct (map f rows) \<Longrightarrow> length (filter (\<lambda>row. f row = k) rows) \<le> 1"
proof (induction rows)
  case Nil
  then show ?case by simp
next
  case (Cons a rows)
  show ?case
  proof (cases "f a = k")
    case True
    then have "filter (\<lambda>row. f row = k) rows = []"
      using Cons.prems by (auto simp: filter_empty_conv image_iff)
    with True show ?thesis by simp
  next
    case False
    then show ?thesis using Cons by simp
  qed
qed

lemma write_rating_update:
  assumes "rows_for uid eid rows = [old]" "ids_ok rows" "one_row_per_pair rows"
  shows "\<exists>rows'. write_rating uid eid r c None None rows = (None, rows') \<and> ids_ok rows' \<and> one_row_per_pair rows'
          \<and> length rows' = length rows
          \<and> (\<exists>row. rows_for uid eid rows' = [row] \<and> er_rating row = r)"
proof -
  let ?f = "\<lambda>row. if er_id row = er_id old then row\<lparr>er_rating := r, er_comment := c\<rparr> else row"
  have mem: "old \<in> set rows"
  proof -
    have "old \<in> set (rows_for uid eid rows)" using assms(1) by simp
    then show ?thesis by (simp add: rows_for_def)
  qed
  then have nz: "er_id old \<noteq> 0"
    using assms(2) by (auto simp: ids_ok_def)
  have w: "write_rating uid eid r c None None rows = (None, update_rating (er_id old) r c rows)"
    using assms(1) nz by (simp add: write_rating_def rows_for_def single_def storage_write_def)
  have ids: "map er_id (map ?f rows) = map er_id rows" by (induction rows) auto
  have keys: "map (\<lambda>row. (er_user_id row, er_event_id row)) (map ?f rows)
                = map (\<lambda>row. (er_user_id row, er_event_id row)) rows" by (induction rows) auto
  have "rows_for uid eid (map ?f rows) = map ?f (rows_for uid eid rows)"
    unfolding rows_for_def by (induction rows) auto
  then have one: "rows_for uid eid (update_rating (er_id old) r c rows) = [old\<lparr>er_rating := r, er_comment := c\<rparr>]"
    using assms(1) by (simp add: update_rating_def)
  have i: "ids_ok (update_rating (er_id old) r c rows)"
    using assms(2) unfolding ids_ok_def update_rating_def ids .
  have k: "one_row_per_pair (update_rating (er_id old) r c rows)"
    using assms(3) unfolding one_row_per_pair_def update_rating_def keys .
  have l: "length (update_rating (er_id old) r c rows) = length rows"
    by (simp add: update_rating_def)
  show ?thesis using w i k l one by simp
qed

lemma rows_for_cases:
  assumes "one_row_per_pair rows"
  shows "rows_for uid eid rows = [] \<or> (\<exists>old. rows_for uid eid rows = [old])"
proof -
  have "length (filter (\<lambda>row. (er_user_id row, er_event_id row) = (uid, eid)) rows) \<le> 1"
    using assms unfolding one_row_per_pair_def by (rule filter_pair_le_one)
  then have "length (rows_for uid eid rows) \<le> 1" by (simp add: rows_for_def)
  then show ?thesis by (cases "rows_for uid eid rows") (auto simp: Suc_le_eq)
qed

lemma write_rating_keeps_one_row:
  assumes "ids_ok rows" "one_row_per_pair rows"
  shows "\<exists>rows'. write_rating uid eid r c None None rows = (None, rows') \<and> ids_ok rows' \<and> one_row_per_pair rows'
          \<and> (\<exists>row. rows_for uid eid rows' = [row] \<and> er_rating row = r)"
  using rows_for_cases[OF assms(2), of uid eid] write_rating_insert[OF _ assms] write_rating_update[OF _ assms]
  by blast


lemma updateUserPreferences_event_ratings:
  "event_ratings (snd (updateUserPreferences u tags d fs db)) = event_ratings db"
  by (simp add: updateUserPreferences_def split: option.splits prod.splits)

lemma snd_rethrow:
  "snd (case x of (Inl err, db') \<Rightarrow> (Inl err, db') | (Inr y, db') \<Rightarrow> (g db', db')) = snd x"
  by (auto split: prod.splits sum.splits)

lemma after_rating_snd:
  "snd (after_rating uid eid r env db)
     = (case event_fault env of
          Some e \<Rightarrow> db
        | None \<Rightarrow> (case events db eid of
                     None \<Rightarrow> db
                   | Some evt \<Rightarrow> snd (updateUserPreferences (Some uid) (tags_of evt)
                                        (computePreferenceDelta r (Some 1)) (prefs_faults env) db)))"
  by (simp add: after_rating_def Let_def snd_rethrow split: option.splits)

lemma after_rating_event_ratings:
  "event_ratings (snd (after_rating uid eid r env db)) = event_ratings db"
  by (simp add: after_rating_snd updateUserPreferences_event_ratings split: option.splits)

lemma addRating_event_ratings:
  assumes "eventId inp = Some eid" "eid \<noteq> []" "rating inp = Some r" "r \<noteq> 0"
          "userId inp = Some uid" "uid \<noteq> []"
  shows "event_ratings (snd (addRating inp env db))
           = snd (write_rating uid eid r (comment inp) (lookup_fault env) (write_fault env) (event_ratings db))"
  using assms
  by (auto simp: addRating_def falsy_str_def after_rating_event_ratings split: prod.splits option.splits)

lemma addRating_twice_one_row:
  assumes "eid \<noteq> []" "uid \<noteq> []" "r1 \<noteq> 0" "r2 \<noteq> 0"
      and "ids_ok (event_ratings db)" "one_row_per_pair (event_ratings db)"
      and "lookup_fault env1 = None" "write_fault env1 = None"
      and "lookup_fault env2 = None" "write_fault env2 = None"
  shows "\<exists>row. rows_for uid eid
                 (event_ratings (snd (addRating \<lparr>userId = Some uid, eventId = Some eid, rating = Some r2, comment = c2\<rparr> env2
                    (snd (addRating \<lparr>userId = Some uid, eventId = Some eid, rating = Some r1, comment = c1\<rparr> env1 db))))) = [row]
               \<and> er_rating row = r2"
proof -
  let ?db1 = "snd (addRating \<lparr>userId = Some uid, eventId = Some eid, rating = Some r1, comment = c1\<rparr> env1 db)"
  obtain rows1 where w1: "write_rating uid eid r1 c1 None None (event_ratings db) = (None, rows1)"
      and ok1: "ids_ok rows1" "one_row_per_pair rows1"
    using write_rating_keeps_one_row[OF assms(5,6)] by blast
  have e1: "event_ratings ?db1 = rows1"
    using addRating_event_ratings[of _ eid r1 uid env1 db] assms w1 by simp
  obtain rows2 row where w2: "write_rating uid eid r2 c2 None None rows1 = (None, rows2)"
      and one: "rows_for uid eid rows2 = [row]" "er_rating row = r2"
    using write_rating_keeps_one_row[OF ok1] by blast
  show ?thesis
    using addRating_event_ratings[of _ eid r2 uid env2 ?db1] assms w2 one e1 by simp
qed

lemma failed_lookup_inserts:
  "write_rating uid eid r c (Some e) None rows = (None, insert_rating uid eid r c rows)"
  by (simp add: write_rating_def storage_write_def)

lemma updateListingRating_twice:
  assumes "upsert_fault env1 = None" "upsert_fault env2 = None"
      and "li_userId in2 = li_userId in1" "li_listingId in2 = li_listingId in1"
  shows "snd (updateListingRating in2 env2 (snd (updateListingRating in1 env1 tbl)))
           = tbl((li_userId in1, li_listingId in1) \<mapsto>
                  \<lparr>lr_rating = li_rating in2, lr_review_text = li_reviewText in2,
                   lr_trip_id = li_tripId in2\<rparr>)"
  using assms
  by (simp add: updateListingRating_def triggerRecommendationUpdate_def Let_def
        split: invoke_outcome.splits)

text \<open>
  C2. After any sequence of calls of \<open>addRating\<close> a (user, event) pair has at most one
  rating row: a second call updates the row of the first. Lemma
  \<open>addRating_twice_one_row\<close> shows it for calls whose lookup and write are executed,
  and the upsert of \<open>updateListingRating\<close> replaces the row of its pair. The function
  does not keep it when the lookup of a call is answered with an error: the branch that
  its comment says rethrows is empty, the existing row is not seen, and a second row is
  inserted while the call returns normally. Below, the pair has one row with rating 3,
  one call rates 5, and the pair has two rows afterwards.
\<close>

theorem addRating_failed_lookup_inserts_second_row:
  "rows_for ''u1'' ''e1'' (event_ratings rated_db)
     = [\<lparr>er_id = 1, er_user_id = ''u1'', er_event_id = ''e1'', er_rating = 3, er_comment = None\<rparr>]
   \<and> rows_for ''u1'' ''e1'' (event_ratings (snd (addRating (rate 5) (healthy\<lparr>lookup_fault := Some ''57014''\<rparr>) rated_db)))
     = [\<lparr>er_id = 1, er_user_id = ''u1'', er_event_id = ''e1'', er_rating = 3, er_comment = None\<rparr>,
        \<lparr>er_id = 2, er_user_id = ''u1'', er_event_id = ''e1'', er_rating = 5, er_comment = None\<rparr>]
   \<and> ratingsCount (projr (fst (addRating (rate 5) (healthy\<lparr>lookup_fault := Some ''57014''\<rparr>) rated_db))) = 2
   \<and> \<not> isl (fst (addRating (rate 5) (healthy\<lparr>lookup_fault := Some ''57014''\<rparr>) rated_db))"
  by (simp add: addRating_def rate_def healthy_def rated_db_def falsy_str_def write_rating_def
        storage_write_def insert_rating_def next_id_def after_rating_def music_event_def tags_of_def
        computePreferenceDelta_def updateUserPreferences_def getEventById_def with_stats_def
        ratings_of_def avg_rating_def num_or_zero_def rows_for_def Let_def)

section \<open>The delta of a rating\<close>

lemma write_rating_executed:
  "fst (write_rating uid eid r c lf None rows) = None"
  by (simp add: write_rating_def storage_write_def Let_def split: option.splits sum.splits)

lemma updateUserPreferences_no_fault:
  assumes "uid \<noteq> []"
  shows "score (user_preferences (snd (updateUserPreferences (Some uid) tags delta [] db))) uid t
           = score (user_preferences db) uid t + of_nat (count_list tags t) * delta"
proof (cases "tags = []")
  case True
  then show ?thesis using assms by (simp add: updateUserPreferences_def)
next
  case False
  obtain p' where l: "updateUserPreferences_loop uid tags delta [] (user_preferences db) = (None, p')"
    using loop_no_fault_total by blast
  show ?thesis
    using False assms l loop_no_fault[OF l, of t] by (simp add: updateUserPreferences_def)
qed

lemma addRating_snd:
  assumes "eventId inp = Some eid" "eid \<noteq> []" "rating inp = Some r" "r \<noteq> 0"
          "userId inp = Some uid" "uid \<noteq> []" "write_fault env = None"
  shows "snd (addRating inp env db)
           = snd (after_rating uid eid r env
                   (db\<lparr>event_ratings := snd (write_rating uid eid r (comment inp) (lookup_fault env) None (event_ratings db))\<rparr>))"
  using assms write_rating_executed[of uid eid r "comment inp" "lookup_fault env" "event_ratings db"]
  by (auto simp: addRating_def falsy_str_def split: prod.splits option.splits)

text \<open>
  C3. The delta of a rating \<open>r\<close> with weight \<open>w\<close> is \<open>(r - 3) * w\<close>: 0 for 3 stars, 2
  for 5 stars and -2 for 1 star at weight 1. Every call of \<open>addRating\<close> whose rating is
  written and whose ledger update is executed adds \<open>(r - 3) * 1\<close> to the score of every
  tag of the event, once per occurrence of the tag.
\<close>

theorem rating_delta_applied:
  "computePreferenceDelta r (Some w) = (r - 3) * w
   \<and> computePreferenceDelta r None = (r - 3) * 1
   \<and> computePreferenceDelta 3 None = 0 \<and> computePreferenceDelta 5 None = 2
   \<and> computePreferenceDelta 1 None = - 2
   \<and> (eventId inp = Some eid \<and> eid \<noteq> [] \<and> rating inp = Some r \<and> r \<noteq> 0
       \<and> userId inp = Some uid \<and> uid \<noteq> []
       \<and> write_fault env = None \<and> event_fault env = None \<and> prefs_faults env = []
       \<and> events db eid = Some evt
      \<longrightarrow> score (user_preferences (snd (addRating inp env db))) uid t
            = score (user_preferences db) uid t + of_nat (count_list (tags_of evt) t) * ((r - 3) * 1))"
proof -
  have d: "computePreferenceDelta r (Some w) = (r - 3) * w" for r w
    by (simp add: computePreferenceDelta_def)
  have n: "computePreferenceDelta r None = r - 3" for r
    by (simp add: computePreferenceDelta_def)
  have "score (user_preferences (snd (addRating inp env db))) uid t
          = score (user_preferences db) uid t + of_nat (count_list (tags_of evt) t) * ((r - 3) * 1)"
    if h: "eventId inp = Some eid" "eid \<noteq> []" "rating inp = Some r" "r \<noteq> 0"
          "userId inp = Some uid" "uid \<noteq> []"
          "write_fault env = None" "event_fault env = None" "prefs_faults env = []"
          "events db eid = Some evt"
    using addRating_snd[OF h(1-7), of db] h(8-10) updateUserPreferences_no_fault[OF h(6)]
    by (simp add: after_rating_snd d)
  then show ?thesis using d n by simp
qed

theorem rating_delta_applied_witness:
  "computePreferenceDelta 4 (Some 1) = 1
   \<and> score (user_preferences (snd (addRating (rate 5) healthy rated_db))) ''u1'' ''music'' = 7
   \<and> score (user_preferences rated_db) ''u1'' ''music'' = 5"
  using rating_delta_applied [of 4 1 "rate 5" "''e1''" "''u1''" healthy rated_db music_event "''music''"]
        rating_delta_applied [of 5 1 "rate 5" "''e1''" "''u1''" healthy rated_db music_event "''music''"]
  by (simp add: rate_def healthy_def rated_db_def music_event_def tags_of_def score_def)

section \<open>Validation of the rating\<close>

text \<open>
  A rating of 6 passes the validation of \<open>addRating\<close>: the call returns the event with
  its statistics and the row is written.
\<close>

theorem addRating_accepts_out_of_range:
  "fst (addRating (rate 6) healthy example_db)
     = Inr \<lparr>view_id = ''e1'', view_event = music_event,
            view_ratings = [\<lparr>er_id = 1, er_user_id = ''u1'', er_event_id = ''e1'', er_rating = 6, er_comment = None\<rparr>],
            avgRating = Some 6, ratingsCount = 1\<rparr>
   \<and> event_ratings (snd (addRating (rate 6) healthy example_db))
     = [\<lparr>er_id = 1, er_user_id = ''u1'', er_event_id = ''e1'', er_rating = 6, er_comment = None\<rparr>]"
  by (simp add: addRating_def rate_def healthy_def example_db_def falsy_str_def write_rating_def
        storage_write_def insert_rating_def next_id_def after_rating_def music_event_def tags_of_def
        computePreferenceDelta_def updateUserPreferences_def getEventById_def with_stats_def
        ratings_of_def avg_rating_def num_or_zero_def single_def Let_def)

lemma write_rating_has_row:
  "\<exists>row \<in> set (snd (write_rating uid eid r c lf None rows)).
      er_user_id row = uid \<and> er_event_id row = eid \<and> er_rating row = r"
proof -
  let ?m = "filter (\<lambda>row. er_user_id row = uid \<and> er_event_id row = eid) rows"
  have ins: "\<exists>row \<in> set (insert_rating uid eid r c rows).
      er_user_id row = uid \<and> er_event_id row = eid \<and> er_rating row = r"
    by (simp add: insert_rating_def)
  have upd: "\<exists>row \<in> set (update_rating (er_id old) r c rows).
      er_user_id row = uid \<and> er_event_id row = eid \<and> er_rating row = r"
    if "old \<in> set ?m" for old
  proof -
    have "old \<in> set rows" "er_user_id old = uid" "er_event_id old = eid" using that by auto
    then have "old\<lparr>er_rating := r, er_comment := c\<rparr> \<in> set (update_rating (er_id old) r c rows)"
      by (force simp: update_rating_def)
    moreover have "er_user_id (old\<lparr>er_rating := r, er_comment := c\<rparr>) = uid"
      "er_event_id (old\<lparr>er_rating := r, er_comment := c\<rparr>) = eid"
      "er_rating (old\<lparr>er_rating := r, er_comment := c\<rparr>) = r"
      using \<open>er_user_id old = uid\<close> \<open>er_event_id old = eid\<close> by simp_all
    ultimately show ?thesis by blast
  qed
  show ?thesis
  proof (cases lf)
    case (Some a)
    then show ?thesis using ins by (simp add: write_rating_def storage_write_def)
  next
    case None
    show ?thesis
    proof (cases "single ?m")
      case (Inl e)
      then show ?thesis using ins None by (simp add: write_rating_def storage_write_def)
    next
      case (Inr old)
      then have "?m = [old]" by (auto simp: single_def split: list.splits)
      then have "old \<in> set ?m" by simp
      then show ?thesis using ins upd[of old] None Inr
        by (simp add: write_rating_def storage_write_def)
    qed
  qed
qed

text \<open>
  C4, amended. \<open>addRating\<close> rejects a rating only when it is missing or 0, with the
  error \<open>rating required\<close>, and then writes nothing. Every other number passes the
  validation, whether or not it is an integer between 1 and 5, and is written to the
  ratings of the pair when the write is executed.
\<close>

theorem addRating_rating_required:
  "(eventId inp = Some eid \<and> eid \<noteq> [] \<and> (rating inp = None \<or> rating inp = Some 0)
      \<longrightarrow> addRating inp env db = (Inl RatingRequired, db))
   \<and> (eventId inp = Some eid \<and> eid \<noteq> [] \<and> rating inp = Some r \<and> r \<noteq> 0
       \<and> userId inp = Some uid \<and> uid \<noteq> [] \<and> write_fault env = None
      \<longrightarrow> (\<exists>row \<in> set (event_ratings (snd (addRating inp env db))).
             er_user_id row = uid \<and> er_event_id row = eid \<and> er_rating row = r))"
proof -
  have a: "addRating inp env db = (Inl RatingRequired, db)"
    if "eventId inp = Some eid" "eid \<noteq> []" "rating inp = None \<or> rating inp = Some 0"
    using that by (auto simp: addRating_def)
  have b: "\<exists>row \<in> set (event_ratings (snd (addRating inp env db))).
             er_user_id row = uid \<and> er_event_id row = eid \<and> er_rating row = r"
    if h: "eventId inp = Some eid" "eid \<noteq> []" "rating inp = Some r" "r \<noteq> 0"
       "userId inp = Some uid" "uid \<noteq> []" "write_fault env = None"
    using addRating_event_ratings[OF h(1-6), of env db] h(7) write_rating_has_row by simp
  show ?thesis using a b by blast
qed

theorem addRating_rating_required_witness:
  "addRating (rate 0) healthy example_db = (Inl RatingRequired, example_db)
   \<and> (\<exists>row \<in> set (event_ratings (snd (addRating (rate 7) healthy example_db))). er_rating row = 7)"
  using addRating_rating_required [of "rate 0" "''e1''" healthy example_db 7 "''u1''"]
        addRating_rating_required [of "rate 7" "''e1''" healthy example_db 7 "''u1''"]
  by (simp add: rate_def healthy_def) blast

section \<open>The response of the recommendation engine\<close>

text \<open>
  C5. The request to the engine, \<open>_callRecommendationFunction\<close>, fails with the error
  \<open>Invalid response format: listings must be an array\<close> whenever the \<open>listings\<close>
  field of the response object is not an array (absent, null, an object, a string, a
  number), and otherwise returns the response, whose \<open>listings\<close> field is that array.
\<close>

theorem listings_must_be_array:
  "(map_of fs ''listings'' = Some (JArr cs)
      \<longrightarrow> callRecommendationFunction request (Resolved (JObj fs) None) = Inr (JObj fs)
          \<and> field ''listings'' (JObj fs) = JArr cs)
   \<and> ((\<forall>cs. map_of fs ''listings'' \<noteq> Some (JArr cs))
      \<longrightarrow> callRecommendationFunction request (Resolved (JObj fs) None) = Inl InvalidResponseFormat)"
proof -
  have "isArray v \<longleftrightarrow> (\<exists>cs. v = JArr cs)" for v by (cases v) auto
  then show ?thesis
    by (auto simp: callRecommendationFunction_def split: option.splits)
qed

theorem listings_must_be_array_witness:
  "callRecommendationFunction \<lparr>rq_context = Fyp, rq_userId = ''u1'', rq_params = None\<rparr>
      (Resolved one_card_response None) = Inr one_card_response
   \<and> field ''listings'' one_card_response = JArr [JObj [(''id'', JStr ''a'')]]
   \<and> callRecommendationFunction \<lparr>rq_context = Fyp, rq_userId = ''u1'', rq_params = None\<rparr>
      (Resolved (JObj [(''listings'', JNull)]) None) = Inl InvalidResponseFormat
   \<and> callRecommendationFunction \<lparr>rq_context = Fyp, rq_userId = ''u1'', rq_params = None\<rparr>
      (Resolved (JObj [(''metadata'', JObj [])]) None) = Inl InvalidResponseFormat
   \<and> callRecommendationFunction \<lparr>rq_context = Fyp, rq_userId = ''u1'', rq_params = None\<rparr>
      (Resolved (JObj [(''listings'', JStr ''none'')]) None) = Inl InvalidResponseFormat"
  using listings_must_be_array [of "[(''listings'', JArr [JObj [(''id'', JStr ''a'')]])]" "[JObj [(''id'', JStr ''a'')]]"
          "\<lparr>rq_context = Fyp, rq_userId = ''u1'', rq_params = None\<rparr>"]
        listings_must_be_array [of "[(''listings'', JNull)]" "[]" "\<lparr>rq_context = Fyp, rq_userId = ''u1'', rq_params = None\<rparr>"]
        listings_must_be_array [of "[(''metadata'', JObj [])]" "[]" "\<lparr>rq_context = Fyp, rq_userId = ''u1'', rq_params = None\<rparr>"]
        listings_must_be_array [of "[(''listings'', JStr ''none'')]" "[]" "\<lparr>rq_context = Fyp, rq_userId = ''u1'', rq_params = None\<rparr>"]
  by (simp add: one_card_response_def)

text \<open>
  A response whose one card has only an \<open>id\<close>: the reader returns the card as it is, and
  its \<open>title\<close> is undefined.
\<close>

theorem card_field_left_undefined:
  "getForYou ''u1'' (Resolved one_card_response None) = JArr [JObj [(''id'', JStr ''a'')]]
   \<and> field ''title'' (JObj [(''id'', JStr ''a'')]) = JUndefined"
  by (simp add: getForYou_def listings_or_empty_def callRecommendationFunction_def one_card_response_def)

text \<open>
  C8, amended. For every response whose \<open>listings\<close> field is an array, the four readers
  return that array as it was received: no card is rebuilt, and a field that is absent in
  a card of the response stays absent in the card returned.
\<close>

theorem cards_returned_as_received:
  "map_of fs ''listings'' = Some (JArr cs) \<longrightarrow>
     getForYou uid (Resolved (JObj fs) None) = JArr cs
   \<and> getExplore uid loc (Resolved (JObj fs) None) = JArr cs
   \<and> getAfterBooking uid seed (Resolved (JObj fs) None) = JArr cs
   \<and> getTripSuggestions uid trip (Resolved (JObj fs) None) = JArr cs"
  by (simp add: getForYou_def getExplore_def getAfterBooking_def getTripSuggestions_def
        listings_or_empty_def callRecommendationFunction_def)

theorem cards_returned_as_received_witness:
  "getForYou ''u1'' (Resolved one_card_response None) = JArr [JObj [(''id'', JStr ''a'')]]
   \<and> getTripSuggestions ''u1'' ''t1'' (Resolved one_card_response None) = JArr [JObj [(''id'', JStr ''a'')]]"
  using cards_returned_as_received [of "[(''listings'', JArr [JObj [(''id'', JStr ''a'')]])]"
          "[JObj [(''id'', JStr ''a'')]]" "''u1''" None "''l1''" "''t1''"]
  by (simp add: one_card_response_def)

section \<open>The weights of the interactions\<close>

text \<open>
  The weight stored with an interaction is not fixed by its kind: the batch operation
  stores a view with the weight 7 that its caller gives, \<open>trackView\<close> stores 1.
\<close>

theorem batch_weight_not_fixed_by_kind:
  "trackBatch [\<lparr>bi_userId = ''u1'', bi_listingId = ''l1'', bi_propertyId = None,
                bi_interactionType = View, bi_weight = 7, bi_metadata = None\<rparr>] None []
     = (True, [tracked ''u1'' ''l1'' None View 7])
   \<and> trackView ''u1'' ''l1'' None None (Resolved JNull None) []
     = (True, [tracked ''u1'' ''l1'' None View 1])"
  by (simp add: trackBatch_def trackView_def insertInteraction_def triggerRefresh_def tracked_def)

text \<open>
  C9, amended. No function from kinds to weights and no lookup that can fail exist in the
  program. Each tracking function writes its row with a constant weight, and these
  constants are the ones of the table: view 1, click 2, message 4, share 5, save 3,
  book 10, swipe left -2, swipe right 1. The kinds are a closed type of these eight, so
  there is no kind outside the table, and \<open>trackBatch\<close> writes every item with the
  weight its caller supplies.
\<close>

theorem tracking_weights:
  "trackView uid lid pid None out tbl = (True, tbl @ [tracked uid lid pid View (weightOf_spec View)])
   \<and> trackClick uid lid pid None out tbl = (True, tbl @ [tracked uid lid pid Click (weightOf_spec Click)])
   \<and> trackMessage uid lid pid None out tbl = (True, tbl @ [tracked uid lid pid Message (weightOf_spec Message)])
   \<and> trackShare uid lid pid None out tbl = (True, tbl @ [tracked uid lid pid Share (weightOf_spec Share)])
   \<and> trackSave uid lid pid None out tbl = (True, tbl @ [tracked uid lid pid Save (weightOf_spec Save)])
   \<and> trackBooking uid lid pid None out tbl = (True, tbl @ [tracked uid lid pid Book (weightOf_spec Book)])
   \<and> trackSwipe uid lid Left pid None out tbl = (True, tbl @ [tracked uid lid pid Swipe_left (weightOf_spec Swipe_left)])
   \<and> trackSwipe uid lid Right pid None out tbl = (True, tbl @ [tracked uid lid pid Swipe_right (weightOf_spec Swipe_right)])
   \<and> trackBatch items None tbl
       = (True, tbl @ map (\<lambda>i. (tracked (bi_userId i) (bi_listingId i) (bi_propertyId i)
                                  (bi_interactionType i) (bi_weight i))\<lparr>ui_metadata := bi_metadata i\<rparr>) items)"
  by (simp add: trackView_def trackClick_def trackMessage_def trackShare_def trackSave_def
        trackBooking_def trackSwipe_def trackBatch_def insertInteraction_def triggerRefresh_def
        tracked_def split: invoke_outcome.splits)

section \<open>Failures of the storage layer and of the notification\<close>

text \<open>
  C7. When the write of the rating is answered with an error, the caller sees a failure:
  \<open>addRating\<close> throws that error (and nothing is written), and
  \<open>updateListingRating\<close> returns \<open>{ success: false }\<close> without an average, a value
  that no call with an executed write returns.
\<close>

theorem failed_rating_write_reaches_caller:
  "(eventId inp = Some eid \<and> eid \<noteq> [] \<and> rating inp = Some r \<and> r \<noteq> 0
      \<and> userId inp = Some uid \<and> uid \<noteq> [] \<and> write_fault env = Some e
     \<longrightarrow> addRating inp env db = (Inl (StorageError e), db))
   \<and> (upsert_fault lenv = Some e
     \<longrightarrow> updateListingRating input lenv tbl = (\<lparr>success = False, newAverage = None\<rparr>, tbl))
   \<and> (upsert_fault lenv = None \<longrightarrow> success (fst (updateListingRating input lenv tbl)))"
proof -
  have w: "write_rating uid eid r c lf (Some e) rows = (Some (StorageError e), rows)" for c lf rows
    by (simp add: write_rating_def storage_write_def Let_def split: option.splits sum.splits)
  have a: "addRating inp env db = (Inl (StorageError e), db)"
    if "eventId inp = Some eid" "eid \<noteq> []" "rating inp = Some r" "r \<noteq> 0"
       "userId inp = Some uid" "uid \<noteq> []" "write_fault env = Some e"
    using that by (simp add: addRating_def falsy_str_def w)
  have b: "updateListingRating input lenv tbl = (\<lparr>success = False, newAverage = None\<rparr>, tbl)"
    if "upsert_fault lenv = Some e"
    using that by (simp add: updateListingRating_def)
  have c: "success (fst (updateListingRating input lenv tbl))" if "upsert_fault lenv = None"
    using that by (simp add: updateListingRating_def triggerRecommendationUpdate_def Let_def
        split: invoke_outcome.splits)
  show ?thesis using a b c by blast
qed

theorem failed_rating_write_reaches_caller_witness:
  "addRating (rate 4) (healthy\<lparr>write_fault := Some ''57014''\<rparr>) rated_db = (Inl (StorageError ''57014''), rated_db)
   \<and> fst (updateListingRating listing_input (healthy_listing\<lparr>upsert_fault := Some ''57014''\<rparr>) Map.empty)
       = \<lparr>success = False, newAverage = None\<rparr>
   \<and> success (fst (updateListingRating listing_input healthy_listing Map.empty))"
  using failed_rating_write_reaches_caller [of "rate 4" "''e1''" 4 "''u1''" "healthy\<lparr>write_fault := Some ''57014''\<rparr>" "''57014''" rated_db
           "healthy_listing\<lparr>upsert_fault := Some ''57014''\<rparr>" listing_input Map.empty]
        failed_rating_write_reaches_caller [of "rate 4" "''e1''" 4 "''u1''" "healthy\<lparr>write_fault := Some ''57014''\<rparr>" "''57014''" rated_db
           healthy_listing listing_input Map.empty]
  by (simp add: rate_def healthy_def healthy_listing_def)

text \<open>
  A failure of the ledger update in \<open>addRating\<close> reaches the caller: with the upsert of
  the score answered with an error the call throws, where it returns the event otherwise.
\<close>

theorem ledger_failure_reaches_caller:
  "fst (addRating (rate 5) (healthy\<lparr>prefs_faults := [(None, Some ''57014'')]\<rparr>) example_db)
     = Inl (StorageError ''57014'')
   \<and> fst (addRating (rate 5) healthy example_db)
     = Inr \<lparr>view_id = ''e1'', view_event = music_event,
            view_ratings = [\<lparr>er_id = 1, er_user_id = ''u1'', er_event_id = ''e1'', er_rating = 5, er_comment = None\<rparr>],
            avgRating = Some 5, ratingsCount = 1\<rparr>"
  by (simp add: addRating_def rate_def healthy_def example_db_def falsy_str_def write_rating_def
        storage_write_def insert_rating_def next_id_def after_rating_def music_event_def tags_of_def
        computePreferenceDelta_def updateUserPreferences_def getEventById_def with_stats_def
        ratings_of_def avg_rating_def num_or_zero_def single_def Let_def)

lemma after_rating_rethrows:
  assumes "event_fault env = None" "events db eid = Some evt"
      and "fst (updateUserPreferences (Some uid) (tags_of evt) (computePreferenceDelta r (Some 1)) (prefs_faults env) db) = Inl err"
  shows "fst (after_rating uid eid r env db) = Inl err"
  using assms by (auto simp: after_rating_def Let_def split: prod.splits sum.splits)

lemma addRating_fst:
  assumes "eventId inp = Some eid" "eid \<noteq> []" "rating inp = Some r" "r \<noteq> 0"
          "userId inp = Some uid" "uid \<noteq> []" "write_fault env = None"
  shows "fst (addRating inp env db)
           = fst (after_rating uid eid r env
                   (db\<lparr>event_ratings := snd (write_rating uid eid r (comment inp) (lookup_fault env) None (event_ratings db))\<rparr>))"
  using assms write_rating_executed[of uid eid r "comment inp" "lookup_fault env" "event_ratings db"]
  by (auto simp: addRating_def falsy_str_def split: prod.splits option.splits)

text \<open>
  C6, amended. A failure of the notification to the engine never reaches the caller:
  \<open>triggerRecommendationUpdate\<close> and \<open>recordInteraction\<close> return normally whatever
  the invocation does, and the result and the table of \<open>updateListingRating\<close> and of
  \<open>_insertInteraction\<close> are the same for every outcome of the notification, so a
  written rating or interaction stays written. In \<open>addRating\<close> a failure of the ledger
  update (\<open>updateUserPreferences\<close>) is rethrown to the caller; the rating written before
  it is not rolled back.
\<close>

theorem best_effort_paths:
  "triggerRecommendationUpdate uid ctx out = Inr ()
   \<and> recordInteraction uid lid k c out = Inr ()
   \<and> updateListingRating input (lenv\<lparr>notify_outcome := out\<rparr>) tbl
       = updateListingRating input (lenv\<lparr>notify_outcome := out'\<rparr>) tbl
   \<and> (upsert_fault lenv = None \<longrightarrow>
        success (fst (updateListingRating input (lenv\<lparr>notify_outcome := out\<rparr>) tbl))
        \<and> snd (updateListingRating input (lenv\<lparr>notify_outcome := out\<rparr>) tbl) (li_userId input, li_listingId input)
            = Some \<lparr>lr_rating = li_rating input, lr_review_text = li_reviewText input, lr_trip_id = li_tripId input\<rparr>)
   \<and> insertInteraction row f out itbl = insertInteraction row f out' itbl
   \<and> insertInteraction row None out itbl = (True, itbl @ [row])
   \<and> (eventId inp = Some eid \<and> eid \<noteq> [] \<and> rating inp = Some r \<and> r \<noteq> 0
       \<and> userId inp = Some uid \<and> uid \<noteq> []
       \<and> write_fault env = None \<and> event_fault env = None \<and> events db eid = Some evt
       \<and> fst (updateUserPreferences (Some uid) (tags_of evt) (computePreferenceDelta r (Some 1)) (prefs_faults env)
                (db\<lparr>event_ratings := snd (write_rating uid eid r (comment inp) (lookup_fault env) None (event_ratings db))\<rparr>))
           = Inl err
      \<longrightarrow> fst (addRating inp env db) = Inl err
          \<and> event_ratings (snd (addRating inp env db))
              = snd (write_rating uid eid r (comment inp) (lookup_fault env) None (event_ratings db)))"
proof -
  have t: "triggerRecommendationUpdate uid ctx out = Inr ()" for uid ctx out
    by (simp add: triggerRecommendationUpdate_def split: invoke_outcome.splits)
  have r: "recordInteraction uid lid k c out = Inr ()"
    by (simp add: recordInteraction_def split: invoke_outcome.splits)
  have u: "updateListingRating input (lenv\<lparr>notify_outcome := out\<rparr>) tbl
       = updateListingRating input (lenv\<lparr>notify_outcome := out'\<rparr>) tbl"
    by (simp add: updateListingRating_def t Let_def split: option.splits)
  have s: "success (fst (updateListingRating input (lenv\<lparr>notify_outcome := out\<rparr>) tbl))
        \<and> snd (updateListingRating input (lenv\<lparr>notify_outcome := out\<rparr>) tbl) (li_userId input, li_listingId input)
            = Some \<lparr>lr_rating = li_rating input, lr_review_text = li_reviewText input, lr_trip_id = li_tripId input\<rparr>"
    if "upsert_fault lenv = None"
    using that by (simp add: updateListingRating_def t Let_def)
  have tr: "triggerRefresh u out = Inr ()" for u out
    by (simp add: triggerRefresh_def split: invoke_outcome.splits)
  have i: "insertInteraction row f out itbl = insertInteraction row f out' itbl"
    by (simp add: insertInteraction_def tr split: option.splits)
  have j: "insertInteraction row None out itbl = (True, itbl @ [row])"
    by (simp add: insertInteraction_def tr)
  have a: "fst (addRating inp env db) = Inl err
          \<and> event_ratings (snd (addRating inp env db))
              = snd (write_rating uid eid r (comment inp) (lookup_fault env) None (event_ratings db))"
    if h: "eventId inp = Some eid" "eid \<noteq> []" "rating inp = Some r" "r \<noteq> 0"
       "userId inp = Some uid" "uid \<noteq> []" "write_fault env = None"
       "event_fault env = None" "events db eid = Some evt"
       "fst (updateUserPreferences (Some uid) (tags_of evt) (computePreferenceDelta r (Some 1)) (prefs_faults env)
                (db\<lparr>event_ratings := snd (write_rating uid eid r (comment inp) (lookup_fault env) None (event_ratings db))\<rparr>))
           = Inl err"
  proof -
    let ?db1 = "db\<lparr>event_ratings := snd (write_rating uid eid r (comment inp) (lookup_fault env) None (event_ratings db))\<rparr>"
    have "events ?db1 eid = Some evt" using h(9) by simp
    then have "fst (after_rating uid eid r env ?db1) = Inl err"
      using after_rating_rethrows[OF h(8) _ h(10)] by simp
    then show ?thesis
      using addRating_fst[OF h(1-7), of db] addRating_event_ratings[OF h(1-6), of env db] h(7) by simp
  qed
  show ?thesis using t r u s i j a by blast
qed

theorem best_effort_paths_witness:
  "updateListingRating listing_input (healthy_listing\<lparr>notify_outcome := Rejected ''timeout''\<rparr>) Map.empty
     = updateListingRating listing_input healthy_listing Map.empty
   \<and> success (fst (updateListingRating listing_input (healthy_listing\<lparr>notify_outcome := Rejected ''timeout''\<rparr>) Map.empty))
   \<and> fst (addRating (rate 5) (healthy\<lparr>prefs_faults := [(None, Some ''57014'')]\<rparr>) example_db) = Inl (StorageError ''57014'')
   \<and> map er_rating (event_ratings (snd (addRating (rate 5) (healthy\<lparr>prefs_faults := [(None, Some ''57014'')]\<rparr>) example_db))) = [5]"
  using best_effort_paths [where uid = "''u1''" and out = "Rejected ''timeout''" and out' = "Resolved JNull None"
           and input = listing_input and lenv = healthy_listing and tbl = Map.empty
           and inp = "rate 5" and eid = "''e1''" and r = 5
           and env = "healthy\<lparr>prefs_faults := [(None, Some ''57014'')]\<rparr>" and db = example_db
           and evt = music_event and err = "StorageError ''57014''"
           and ctx = "\<lparr>tc_listingId = None, tc_rating = None, tc_action = None\<rparr>"
           and lid = "''l1''" and k = RView and c = Fyp
           and row = "tracked ''u1'' ''l1'' None View 1" and f = None and itbl = "[]"]
  by (auto simp: healthy_listing_def rate_def healthy_def example_db_def music_event_def tags_of_def
        computePreferenceDelta_def updateUserPreferences_def write_rating_def storage_write_def
        insert_rating_def next_id_def single_def Let_def)

end
